theory Spec2Isabelle
  imports Complex_Main "HOL-Library.Char_ord" "HOL-Library.List_Lexorder"
begin

section \<open>Data model of tgan/data.py\<close>

text \<open>
  Exceptions are values: every \<^verbatim>\<open>raise\<close>, failed assertion, failed subscript and failed
  dictionary lookup of the Python source is a branch returning \<open>Inl\<close> of one of these.
\<close>

datatype error =
  ValueError | KeyError | IndexError | TypeError | UnboundLocalError | AssertionError

text \<open>
  Numeric numpy arrays of rank 1 and rank 2. \<open>Array2 m rs\<close> has shape \<open>(length rs, m)\<close>,
  so that an array without rows still has a width. Entries are real numbers: integer
  arrays are arrays whose entries are integers, and rounding is not modelled.
\<close>

datatype ndarray = Array1 "real list" | Array2 nat "real list list"

fun shape :: "ndarray \<Rightarrow> nat list" where
  "shape (Array1 xs) = [length xs]"
| "shape (Array2 m rs) = [length rs, m]"

fun flat :: "ndarray \<Rightarrow> real list" where
  "flat (Array1 xs) = xs"
| "flat (Array2 m rs) = concat rs"

fun wf_ndarray :: "ndarray \<Rightarrow> bool" where
  "wf_ndarray (Array1 xs) = True"
| "wf_ndarray (Array2 m rs) = list_all (\<lambda>r. length r = m) rs"

text \<open>
  One entry of \<^verbatim>\<open>metadata['details']\<close>: a dictionary with the key \<^verbatim>\<open>type\<close> and,
  depending on the column, \<^verbatim>\<open>means\<close>, \<^verbatim>\<open>stds\<close> or \<^verbatim>\<open>mapping\<close>. A key that is absent is
  \<open>None\<close>, and subscripting it raises \<open>KeyError\<close>.
\<close>

record column_info =
  type :: string
  means :: "real list option"
  stds :: "real list option"
  mapping :: "string list option"
  n :: nat

record metadata =
  num_features :: nat
  details :: "column_info list"

text \<open>
  A column of a pandas table is numeric or holds strings; a table is the list of its
  columns, labelled \<open>0, 1, \<dots>\<close> by position as \<^verbatim>\<open>read_csv(header=None)\<close> labels them.
\<close>

datatype series = Floats "real list" | Objects "string list"

type_synonym dataframe = "series list"

text \<open>
  The fitted \<^verbatim>\<open>sklearn.mixture.GaussianMixture\<close>: the attributes and the method that
  \<^verbatim>\<open>MultiModalNumberTransformer.transform\<close> reads (\<^verbatim>\<open>means_\<close>, \<^verbatim>\<open>covariances_\<close> and
  \<^verbatim>\<open>predict_proba\<close>). The library is not part of the repository;
  fitting it and the string form of a number (\<^verbatim>\<open>astype(str)\<close>) are parameters.
\<close>

record gmm =
  gmm_means :: "real list"
  gmm_covariances :: "real list"
  predict_proba :: "ndarray \<Rightarrow> ndarray"

record env =
  GaussianMixture_fit :: "nat \<Rightarrow> ndarray \<Rightarrow> error + gmm"
  str_of_float :: "real \<Rightarrow> string"

record MultiModalNumberTransformer =
  num_modes :: nat

record Preprocessor =
  continuous_columns :: "nat list"
  metadata :: "metadata option"
  continous_transformer :: MultiModalNumberTransformer

section \<open>Helpers of the Python and numpy semantics\<close>

fun traverse :: "('a \<Rightarrow> error + 'b) \<Rightarrow> 'a list \<Rightarrow> error + 'b list" where
  "traverse f [] = Inr []"
| "traverse f (x # xs) =
     (case f x of
        Inl e \<Rightarrow> Inl e
      | Inr y \<Rightarrow> (case traverse f xs of Inl e \<Rightarrow> Inl e | Inr ys \<Rightarrow> Inr (y # ys)))"

text \<open>\<^verbatim>\<open>np.argmax\<close> of one row: the first index that holds the maximum.\<close>

fun argmax_scan :: "real list \<Rightarrow> nat \<Rightarrow> nat \<Rightarrow> real \<Rightarrow> nat" where
  "argmax_scan [] i best v = best"
| "argmax_scan (x # xs) i best v =
     (if v < x then argmax_scan xs (Suc i) i x else argmax_scan xs (Suc i) best v)"

fun argmax :: "real list \<Rightarrow> nat" where
  "argmax [] = 0"
| "argmax (x # xs) = argmax_scan xs 1 0 x"

text \<open>\<^verbatim>\<open>np.argmax(a, axis=1)\<close>: there is no axis 1 in a rank-1 array and no maximum of
  an empty row.\<close>

fun argmax_axis1 :: "ndarray \<Rightarrow> error + nat list" where
  "argmax_axis1 (Array1 xs) = Inl ValueError"
| "argmax_axis1 (Array2 m rs) = (if m = 0 then Inl ValueError else Inr (map argmax rs))"

definition clip :: "real \<Rightarrow> real \<Rightarrow> real \<Rightarrow> real" where
  "clip x lo hi = min (max x lo) hi"

text \<open>\<^verbatim>\<open>np.concatenate((a, b), axis=1)\<close> of two rank-2 arrays.\<close>

fun concatenate_axis1 :: "ndarray \<Rightarrow> ndarray \<Rightarrow> error + ndarray" where
  "concatenate_axis1 (Array2 m rs) (Array2 m' rs') =
     (if length rs \<noteq> length rs' then Inl ValueError
      else Inr (Array2 (m + m') (map (\<lambda>(r, r'). r @ r') (zip rs rs'))))"
| "concatenate_axis1 a b = Inl ValueError"

text \<open>The column key \<^verbatim>\<open>'f%02d' % i\<close>.\<close>

definition digit_char :: "nat \<Rightarrow> char" where
  "digit_char d = ''0123456789'' ! d"

fun str_of_nat :: "nat \<Rightarrow> string" where
  "str_of_nat i =
     (if i < 10 then [digit_char i] else str_of_nat (i div 10) @ [digit_char (i mod 10)])"

declare str_of_nat.simps [simp del]

definition fkey :: "nat \<Rightarrow> string" where
  "fkey i = ''f'' @ (if i < 10 then ''0'' else []) @ str_of_nat i"

section \<open>check_metadata and check_inputs\<close>

definition check_metadata :: "metadata \<Rightarrow> error + unit" where
  "check_metadata md =
     (if list_all (\<lambda>item. type item \<in> set [''category'', ''value'']) (details md)
      then Inr () else Inl AssertionError)"

text \<open>
  The decorator: the wrapped method runs only on an array of shape \<open>(n, 1)\<close>. The test
  \<^verbatim>\<open>isinstance(data, np.ndarray)\<close> holds of every value of the type \<open>ndarray\<close>.
\<close>

definition check_inputs ::
  "('s \<Rightarrow> ndarray \<Rightarrow> 'b \<Rightarrow> error + 'a) \<Rightarrow> 's \<Rightarrow> ndarray \<Rightarrow> 'b \<Rightarrow> error + 'a" where
  "check_inputs function self data args =
     (if \<not> (length (shape data) = 2 \<and> shape data ! 1 = 1) then Inl ValueError
      else function self data args)"

section \<open>MultiModalNumberTransformer\<close>

text \<open>
  The body of \<^verbatim>\<open>transform\<close>. \<^verbatim>\<open>reshape((1, num_modes))\<close> raises when the fitted model
  does not have \<^verbatim>\<open>num_modes\<close> components; \<^verbatim>\<open>features[idx, argmax]\<close> raises when the
  responsibilities do not have one row per value or name a component that is not there.
\<close>

definition transform_body ::
  "env \<Rightarrow> MultiModalNumberTransformer \<Rightarrow> ndarray \<Rightarrow> unit
     \<Rightarrow> error + (ndarray \<times> ndarray \<times> real list \<times> real list)" where
  "transform_body ev self data u =
     (case GaussianMixture_fit ev (num_modes self) data of
        Inl e \<Rightarrow> Inl e
      | Inr model \<Rightarrow>
          if length (gmm_means model) \<noteq> num_modes self then Inl ValueError
          else if length (gmm_covariances model) \<noteq> num_modes self then Inl ValueError
          else
            let mean_l = gmm_means model;
                std_l = map sqrt (gmm_covariances model);
                probs = predict_proba model data
            in (case argmax_axis1 probs of
                  Inl e \<Rightarrow> Inl e
                | Inr am \<Rightarrow>
                    if length am \<noteq> length (flat data) then Inl IndexError
                    else if list_ex (\<lambda>k. num_modes self \<le> k) am then Inl IndexError
                    else Inr (Array2 1
                                (map (\<lambda>(x, k). [clip ((x - mean_l ! k) / (2 * std_l ! k)) (- 0.99) 0.99])
                                   (zip (flat data) am)),
                              probs, mean_l, std_l)))"

definition MultiModalNumberTransformer_transform ::
  "env \<Rightarrow> MultiModalNumberTransformer \<Rightarrow> ndarray
     \<Rightarrow> error + (ndarray \<times> ndarray \<times> real list \<times> real list)" where
  "MultiModalNumberTransformer_transform ev self data =
     check_inputs (transform_body ev) self data ()"

text \<open>
  \<^verbatim>\<open>reverse_transform\<close> is not decorated. \<^verbatim>\<open>data[:, 0]\<close> needs a second axis with an
  entry, \<^verbatim>\<open>argmax\<close> a non-empty rest, and \<^verbatim>\<open>mean[p_argmax]\<close>, \<^verbatim>\<open>std[p_argmax]\<close> raise
  \<open>IndexError\<close> out of range.
\<close>

fun MultiModalNumberTransformer_reverse_transform ::
  "ndarray \<Rightarrow> column_info \<Rightarrow> error + ndarray" where
  "MultiModalNumberTransformer_reverse_transform (Array1 xs) info = Inl IndexError"
| "MultiModalNumberTransformer_reverse_transform (Array2 m rs) info =
     (if m = 0 then Inl IndexError
      else
        let features = map hd rs;
            probs = Array2 (m - 1) (map tl rs)
        in (case argmax_axis1 probs of
              Inl e \<Rightarrow> Inl e
            | Inr p_argmax \<Rightarrow>
               (case means info of
                  None \<Rightarrow> Inl KeyError
                | Some mean \<Rightarrow>
                   (case stds info of
                      None \<Rightarrow> Inl KeyError
                    | Some std \<Rightarrow>
                        if list_ex (\<lambda>k. length mean \<le> k) p_argmax then Inl IndexError
                        else if list_ex (\<lambda>k. length std \<le> k) p_argmax then Inl IndexError
                        else Inr (Array1 (map (\<lambda>(f, k). f * 2 * std ! k + mean ! k)
                                            (zip features p_argmax)))))))"

section \<open>CategoricalTransformer\<close>

text \<open>\<^verbatim>\<open>np.unique(data).tolist()\<close>: sort, then drop a value equal to its predecessor.\<close>

definition unique :: "string list \<Rightarrow> string list" where
  "unique data = remdups_adj (sort data)"

text \<open>The dictionary comprehension \<^verbatim>\<open>{value: index for index, value in enumerate(...)}\<close>.\<close>

definition value_mapping_of :: "string list \<Rightarrow> (string \<rightharpoonup> nat)" where
  "value_mapping_of unique_values =
     fold (\<lambda>(index, v) m. m(v \<mapsto> index)) (enumerate 0 unique_values) Map.empty"

definition subscript :: "('k \<rightharpoonup> 'v) \<Rightarrow> 'k \<Rightarrow> error + 'v" where
  "subscript d k = (case d k of None \<Rightarrow> Inl KeyError | Some v \<Rightarrow> Inr v)"

definition CategoricalTransformer_transform ::
  "string list \<Rightarrow> error + (ndarray \<times> string list \<times> nat)" where
  "CategoricalTransformer_transform data =
     (let unique_values = unique data;
          value_mapping = value_mapping_of unique_values
      in (case traverse (subscript value_mapping) data of
            Inl e \<Rightarrow> Inl e
          | Inr v \<Rightarrow> Inr (Array2 1 (map (\<lambda>i. [real i]) v), unique_values, length unique_values)))"

text \<open>
  \<^verbatim>\<open>id2str = dict(enumerate(info['mapping']))\<close> has the keys \<open>0, \<dots>, len - 1\<close>; an entry
  \<open>x\<close> of the array finds the key equal to it, if there is one.
\<close>

definition id2str :: "string list \<Rightarrow> real \<Rightarrow> error + string" where
  "id2str mp x =
     (if 0 \<le> x \<and> real (nat \<lfloor>x\<rfloor>) = x \<and> nat \<lfloor>x\<rfloor> < length mp
      then Inr (mp ! nat \<lfloor>x\<rfloor>) else Inl KeyError)"

definition reverse_transform_body ::
  "unit \<Rightarrow> ndarray \<Rightarrow> column_info \<Rightarrow> error + string list" where
  "reverse_transform_body self data info =
     (case mapping info of
        None \<Rightarrow> Inl KeyError
      | Some mp \<Rightarrow> traverse (id2str mp) (flat data))"

definition CategoricalTransformer_reverse_transform ::
  "ndarray \<Rightarrow> column_info \<Rightarrow> error + string list" where
  "CategoricalTransformer_reverse_transform data info =
     check_inputs reverse_transform_body () data info"

section \<open>Preprocessor\<close>

definition Preprocessor_init :: "nat list option \<Rightarrow> metadata option \<Rightarrow> Preprocessor" where
  "Preprocessor_init cols md =
     \<lparr>continuous_columns = (case cols of None \<Rightarrow> [] | Some cs \<Rightarrow> cs),
      metadata = md,
      continous_transformer = \<lparr>num_modes = 5\<rparr>\<rparr>"

text \<open>
  \<^verbatim>\<open>data[i].values.reshape([-1, 1])\<close>. A column of strings cannot be fitted or subtracted
  from: sklearn or numpy raises, and the model raises at this point.
\<close>

fun values_reshape :: "series \<Rightarrow> error + ndarray" where
  "values_reshape (Floats xs) = Inr (Array2 1 (map (\<lambda>x. [x]) xs))"
| "values_reshape (Objects xs) = Inl TypeError"

text \<open>\<^verbatim>\<open>data[i].astype(str).values\<close>.\<close>

fun astype_str :: "env \<Rightarrow> series \<Rightarrow> string list" where
  "astype_str ev (Floats xs) = map (str_of_float ev) xs"
| "astype_str ev (Objects xs) = xs"

type_synonym transformed = "string \<rightharpoonup> ndarray"

text \<open>
  One round of the loop of \<^verbatim>\<open>fit_transform\<close>: the block and the descriptor of column
  \<open>i\<close>.
\<close>

definition fit_transform_column ::
  "env \<Rightarrow> Preprocessor \<Rightarrow> dataframe \<Rightarrow> nat \<Rightarrow> error + (ndarray \<times> column_info)" where
  "fit_transform_column ev self data i =
     (if i \<in> set (continuous_columns self) then
        (case values_reshape (data ! i) of
           Inl e \<Rightarrow> Inl e
         | Inr column_data \<Rightarrow>
            (case MultiModalNumberTransformer_transform ev (continous_transformer self) column_data of
               Inl e \<Rightarrow> Inl e
             | Inr (features, probs, ms, ss) \<Rightarrow>
                (case concatenate_axis1 features probs of
                   Inl e \<Rightarrow> Inl e
                 | Inr block \<Rightarrow>
                     Inr (block, \<lparr>type = ''value'', means = Some ms, stds = Some ss,
                                  mapping = None, n = 5\<rparr>))))
      else
        (case CategoricalTransformer_transform (astype_str ev (data ! i)) of
           Inl e \<Rightarrow> Inl e
         | Inr (features, mp, k) \<Rightarrow>
             Inr (features, \<lparr>type = ''category'', means = None, stds = None,
                             mapping = Some mp, n = k\<rparr>)))"

text \<open>
  The loop over \<^verbatim>\<open>range(num_cols)\<close>; its state is the two locals \<^verbatim>\<open>transformed_data\<close>
  and \<^verbatim>\<open>details\<close>. An exception leaves the loop and the method.
\<close>

fun fit_transform_loop ::
  "env \<Rightarrow> Preprocessor \<Rightarrow> dataframe \<Rightarrow> nat list \<Rightarrow> transformed \<times> column_info list
     \<Rightarrow> error + (transformed \<times> column_info list)" where
  "fit_transform_loop ev self data [] st = Inr st"
| "fit_transform_loop ev self data (i # rest) (transformed_data, dets) =
     (case fit_transform_column ev self data i of
        Inl e \<Rightarrow> Inl e
      | Inr (block, info) \<Rightarrow>
          fit_transform_loop ev self data rest
            (transformed_data(fkey i \<mapsto> block), dets @ [info]))"

text \<open>
  A method returns its result, or the exception, together with the object as the call
  leaves it.
\<close>

definition Preprocessor_fit_transform ::
  "env \<Rightarrow> Preprocessor \<Rightarrow> dataframe \<Rightarrow> bool \<Rightarrow> (error + transformed) \<times> Preprocessor" where
  "Preprocessor_fit_transform ev self data fitting =
     (let num_cols = length data
      in (case fit_transform_loop ev self data [0..<num_cols] (Map.empty, []) of
            Inl e \<Rightarrow> (Inl e, self)
          | Inr (transformed_data, dets) \<Rightarrow>
              (Inr transformed_data,
               if fitting
               then self\<lparr>metadata := Some \<lparr>num_features = num_cols, details = dets\<rparr>\<rparr>
               else self)))"

definition Preprocessor_transform ::
  "env \<Rightarrow> Preprocessor \<Rightarrow> dataframe \<Rightarrow> (error + transformed) \<times> Preprocessor" where
  "Preprocessor_transform ev self data = Preprocessor_fit_transform ev self data False"

definition Preprocessor_fit ::
  "env \<Rightarrow> Preprocessor \<Rightarrow> dataframe \<Rightarrow> (error + unit) \<times> Preprocessor" where
  "Preprocessor_fit ev self data =
     (case Preprocessor_fit_transform ev self data True of
        (Inl e, self') \<Rightarrow> (Inl e, self')
      | (Inr r, self') \<Rightarrow> (Inr (), self'))"

text \<open>
  One round of the loop of \<^verbatim>\<open>reverse_transform\<close>. The local \<^verbatim>\<open>column\<close> is unbound until
  one of the two \<^verbatim>\<open>if\<close> statements assigns it, and it keeps its value from one round to the
  next; \<^verbatim>\<open>table.append(column)\<close> raises while it is unbound.
\<close>

definition reverse_transform_column ::
  "metadata \<Rightarrow> transformed \<Rightarrow> nat \<Rightarrow> series option \<Rightarrow> error + series" where
  "reverse_transform_column md data i column =
     (case data (fkey i) of
        None \<Rightarrow> Inl KeyError
      | Some column_data \<Rightarrow>
          if length (details md) \<le> i then Inl IndexError
          else
            let column_metadata = details md ! i
            in (case (if type column_metadata = ''value''
                      then (case MultiModalNumberTransformer_reverse_transform
                                   column_data column_metadata of
                              Inl e \<Rightarrow> Inl e
                            | Inr a \<Rightarrow> Inr (Some (Floats (flat a))))
                      else Inr column) of
                  Inl e \<Rightarrow> Inl e
                | Inr column1 \<Rightarrow>
                   (case (if type column_metadata = ''category''
                          then (case CategoricalTransformer_reverse_transform
                                       column_data column_metadata of
                                  Inl e \<Rightarrow> Inl e
                                | Inr l \<Rightarrow> Inr (Some (Objects l)))
                          else Inr column1) of
                      Inl e \<Rightarrow> Inl e
                    | Inr column2 \<Rightarrow>
                       (case column2 of
                          None \<Rightarrow> Inl UnboundLocalError
                        | Some c \<Rightarrow> Inr c))))"

fun reverse_transform_loop ::
  "metadata \<Rightarrow> transformed \<Rightarrow> nat list \<Rightarrow> series option \<times> series list
     \<Rightarrow> error + series list" where
  "reverse_transform_loop md data [] (column, table) = Inr table"
| "reverse_transform_loop md data (i # rest) (column, table) =
     (case reverse_transform_column md data i column of
        Inl e \<Rightarrow> Inl e
      | Inr c \<Rightarrow> reverse_transform_loop md data rest (Some c, table @ [c]))"

fun series_length :: "series \<Rightarrow> nat" where
  "series_length (Floats xs) = length xs"
| "series_length (Objects xs) = length xs"

text \<open>\<^verbatim>\<open>pd.DataFrame(dict(enumerate(table)))\<close>: the columns must be of one length.\<close>

definition DataFrame :: "series list \<Rightarrow> error + dataframe" where
  "DataFrame table =
     (if list_all (\<lambda>c. series_length c = series_length (hd table)) table
      then Inr table else Inl ValueError)"

text \<open>Subscripting \<^verbatim>\<open>self.metadata\<close> while it is \<^verbatim>\<open>None\<close> raises \<open>TypeError\<close>.\<close>

definition Preprocessor_reverse_transform ::
  "Preprocessor \<Rightarrow> transformed \<Rightarrow> error + dataframe" where
  "Preprocessor_reverse_transform self data =
     (case metadata self of
        None \<Rightarrow> Inl TypeError
      | Some md \<Rightarrow>
         (case reverse_transform_loop md data [0..<num_features md] (None, []) of
            Inl e \<Rightarrow> Inl e
          | Inr table \<Rightarrow> DataFrame table))"

section \<open>The transform of the specification, and example inputs\<close>

text \<open>
  The specification's reading of \<^verbatim>\<open>Preprocessor.transform\<close> for a categorical column: the
  values are encoded with the vocabulary stored in the metadata by an earlier fit, and no
  new vocabulary is built. This definition follows the specification, not the source.
\<close>

definition encode_with_stored_mapping :: "string list \<Rightarrow> string list \<Rightarrow> error + ndarray" where
  "encode_with_stored_mapping stored data =
     (case traverse (subscript (value_mapping_of stored)) data of
        Inl e \<Rightarrow> Inl e
      | Inr v \<Rightarrow> Inr (Array2 1 (map (\<lambda>i. [real i]) v)))"

text \<open>\<^verbatim>\<open>result[key]\<close> of a returned table.\<close>

definition block_of :: "error + transformed \<Rightarrow> string \<Rightarrow> error + ndarray" where
  "block_of r key = (case r of Inl e \<Rightarrow> Inl e | Inr td \<Rightarrow> subscript td key)"

text \<open>
  A mixture with two components for the examples, and a fit that refuses fewer than two
  values.
\<close>

definition example_gmm :: gmm where
  "example_gmm =
     \<lparr>gmm_means = [0, 10], gmm_covariances = [1, 4],
      predict_proba = (\<lambda>d. Array2 2 (map (\<lambda>x. if x < 5 then [1, 0] else [0, 1]) (flat d)))\<rparr>"

definition example_env :: env where
  "example_env =
     \<lparr>GaussianMixture_fit =
        (\<lambda>k d. if length (flat d) < 2 then Inl ValueError else Inr example_gmm),
      str_of_float = (\<lambda>x. ''x'')\<rparr>"

definition category_info :: "string list \<Rightarrow> column_info" where
  "category_info mp =
     \<lparr>type = ''category'', means = None, stds = None, mapping = Some mp, n = length mp\<rparr>"

text \<open>A Preprocessor fitted on the one-column table with the values \<open>a\<close>, \<open>b\<close>.\<close>

definition fitted_ab :: Preprocessor where
  "fitted_ab =
     snd (Preprocessor_fit example_env (Preprocessor_init None None) [Objects [''a'', ''b'']])"

text \<open>Metadata whose second descriptor has a type that is neither of the two.\<close>

definition unsupported_metadata :: metadata where
  "unsupported_metadata =
     \<lparr>num_features = 2,
      details = [category_info [''a''],
                 \<lparr>type = ''other'', means = None, stds = None, mapping = None, n = 0\<rparr>]\<rparr>"

section \<open>Properties of the CategoricalTransformer\<close>

lemma distinct_remdups_adj_sorted:
  "sorted xs \<Longrightarrow> distinct (remdups_adj xs)"
  by (induction xs rule: remdups_adj.induct) auto

lemma unique_distinct: "distinct (unique data)"
  by (simp add: unique_def distinct_remdups_adj_sorted)

lemma unique_set: "set (unique data) = set data"
  by (simp add: unique_def)

lemma fold_enumerate_notin:
  "x \<notin> set us \<Longrightarrow>
     fold (\<lambda>(index, v) m. m(v \<mapsto> index)) (enumerate k us) m0 x = m0 x"
  by (induction us arbitrary: k m0) auto

lemma fold_enumerate_nth:
  "distinct us \<Longrightarrow> i < length us \<Longrightarrow>
     fold (\<lambda>(index, v) m. m(v \<mapsto> index)) (enumerate k us) m0 (us ! i) = Some (k + i)"
proof (induction us arbitrary: k m0 i)
  case Nil
  then show ?case by simp
next
  case (Cons u us)
  show ?case
  proof (cases i)
    case 0
    from Cons.prems have "u \<notin> set us" by simp
    from fold_enumerate_notin [OF this, of "Suc k" "m0(u \<mapsto> k)"] 0
    show ?thesis by (simp del: fun_upd_apply) simp
  next
    case (Suc j)
    with Cons.prems have "j < length us" "distinct us" by simp_all
    from Cons.IH [OF this(2) this(1), of "Suc k" "m0(u \<mapsto> k)"] Suc
    show ?thesis by (simp del: fun_upd_apply)
  qed
qed

lemma value_mapping_of_mem:
  assumes "distinct us" "x \<in> set us"
  shows "\<exists>i < length us. value_mapping_of us x = Some i \<and> us ! i = x"
proof -
  from assms(2) obtain i where i: "i < length us" "us ! i = x"
    by (auto simp: in_set_conv_nth)
  with fold_enumerate_nth [OF assms(1) i(1), of 0 Map.empty]
  show ?thesis by (auto simp: value_mapping_of_def)
qed

lemma traverse_all_Inr:
  "(\<And>x. x \<in> set xs \<Longrightarrow> f x = Inr (g x)) \<Longrightarrow> traverse f xs = Inr (map g xs)"
  by (induction xs) auto

lemma id2str_real: "i < length mp \<Longrightarrow> id2str mp (real i) = Inr (mp ! i)"
  by (simp add: id2str_def)

lemma traverse_map_Inr:
  "(\<And>x. x \<in> set xs \<Longrightarrow> f (g x) = Inr (h x)) \<Longrightarrow> traverse f (map g xs) = Inr (map h xs)"
  by (induction xs) auto

lemma concat_singletons: "concat (map (\<lambda>i. [g i]) xs) = map g xs"
  by (induction xs) auto

text \<open>
  Claim C1. For every column of strings, \<^verbatim>\<open>CategoricalTransformer.transform\<close> succeeds, and
  \<^verbatim>\<open>CategoricalTransformer.reverse_transform\<close> applied to the encoded column, with a
  descriptor holding the mapping that \<^verbatim>\<open>transform\<close> produced, returns exactly the original
  sequence of values.
\<close>

theorem C1_categorical_round_trip:
  "\<exists>features unique_values k.
     CategoricalTransformer_transform data = Inr (features, unique_values, k) \<and>
     k = length unique_values \<and>
     CategoricalTransformer_reverse_transform features (info\<lparr>mapping := Some unique_values\<rparr>)
       = Inr data"
proof -
  let ?us = "unique data"
  let ?vm = "value_mapping_of ?us"
  let ?v = "map (\<lambda>x. the (?vm x)) data"
  have vm: "\<exists>i < length ?us. ?vm x = Some i \<and> ?us ! i = x" if "x \<in> set data" for x
    using value_mapping_of_mem [OF unique_distinct, of x data] that by (simp add: unique_set)
  have enc: "traverse (subscript ?vm) data = Inr ?v"
  proof (rule traverse_all_Inr)
    fix x assume "x \<in> set data"
    from vm [OF this] show "subscript ?vm x = Inr (the (?vm x))"
      by (auto simp: subscript_def)
  qed
  have "traverse (id2str ?us) (map (\<lambda>x. real (the (?vm x))) data) = Inr (map (\<lambda>x. x) data)"
  proof (rule traverse_map_Inr)
    fix x assume "x \<in> set data"
    from vm [OF this] show "id2str ?us (real (the (?vm x))) = Inr x"
      by (auto simp: id2str_real)
  qed
  moreover have "concat (map (\<lambda>i. [real i]) ?v) = map (\<lambda>x. real (the (?vm x))) data"
    by (simp add: concat_singletons comp_def)
  ultimately have dec: "traverse (id2str ?us) (concat (map (\<lambda>i. [real i]) ?v)) = Inr data"
    by simp
  have "CategoricalTransformer_transform data = Inr (Array2 1 (map (\<lambda>i. [real i]) ?v), ?us, length ?us)"
    using enc by (simp add: CategoricalTransformer_transform_def Let_def)
  moreover have "CategoricalTransformer_reverse_transform (Array2 1 (map (\<lambda>i. [real i]) ?v))
       (info\<lparr>mapping := Some ?us\<rparr>) = Inr data"
    using dec by (simp add: CategoricalTransformer_reverse_transform_def check_inputs_def
        reverse_transform_body_def)
  ultimately show ?thesis by blast
qed

section \<open>Properties of the MultiModalNumberTransformer\<close>

lemma argmax_scan_spec:
  assumes "best < length pre" "v = pre ! best"
    "\<forall>j<length pre. pre ! j \<le> v" "\<forall>j<best. pre ! j < v"
  shows "argmax_scan xs (length pre) best v < length (pre @ xs) \<and>
         (\<forall>j<length (pre @ xs). (pre @ xs) ! j \<le> (pre @ xs) ! argmax_scan xs (length pre) best v) \<and>
         (\<forall>j<argmax_scan xs (length pre) best v.
             (pre @ xs) ! j < (pre @ xs) ! argmax_scan xs (length pre) best v)"
  using assms
proof (induction xs arbitrary: pre best v)
  case Nil
  then show ?case by simp
next
  case (Cons x xs)
  show ?case
  proof (cases "v < x")
    case True
    have "length pre < length (pre @ [x])" by simp
    moreover have "x = (pre @ [x]) ! length pre" by simp
    moreover have "\<forall>j<length (pre @ [x]). (pre @ [x]) ! j \<le> x"
      using Cons.prems True by (auto simp: nth_append less_Suc_eq)
    moreover have "\<forall>j<length pre. (pre @ [x]) ! j < x"
      using Cons.prems True by (auto simp: nth_append)
    ultimately show ?thesis
      using Cons.IH [of "length pre" "pre @ [x]" x] True by simp
  next
    case False
    have "best < length (pre @ [x])" using Cons.prems by simp
    moreover have "v = (pre @ [x]) ! best" using Cons.prems by (simp add: nth_append)
    moreover have "\<forall>j<length (pre @ [x]). (pre @ [x]) ! j \<le> v"
      using Cons.prems False by (auto simp: nth_append less_Suc_eq)
    moreover have "\<forall>j<best. (pre @ [x]) ! j < v"
      using Cons.prems by (auto simp: nth_append)
    ultimately show ?thesis
      using Cons.IH [of best "pre @ [x]" v] False by simp
  qed
qed

lemma argmax_spec:
  assumes "xs \<noteq> []"
  shows "argmax xs < length xs \<and> (\<forall>j<length xs. xs ! j \<le> xs ! argmax xs) \<and>
         (\<forall>j<argmax xs. xs ! j < xs ! argmax xs)"
proof -
  from assms obtain y ys where xs: "xs = y # ys" by (cases xs) auto
  from argmax_scan_spec [of 0 "[y]" y ys] show ?thesis by (simp add: xs)
qed

lemma map_zip_map2: "map f (zip (map g xs) (map h xs)) = map (\<lambda>x. f (g x, h x)) xs"
  by (induction xs) auto

text \<open>
  Claim C6. For encoded rows \<open>(scalar, probs)\<close> with at least one responsibility, and a
  descriptor whose \<^verbatim>\<open>means\<close> and \<^verbatim>\<open>stds\<close> have an entry for every component,
  \<^verbatim>\<open>MultiModalNumberTransformer.reverse_transform\<close> returns, for each row on its own,
  \<open>scalar * 2 * stds[k] + means[k]\<close>, where \<open>k\<close> is the index of the maximum entry of
  \<open>probs\<close> (the first one, when the maximum occurs more than once).
\<close>

theorem C6_reverse_transform_formula:
  assumes "wf_ndarray (Array2 m rs)" and "2 \<le> m"
    and "means info = Some mean_l" and "stds info = Some std_l"
    and "m - 1 \<le> length mean_l" and "m - 1 \<le> length std_l"
  shows "MultiModalNumberTransformer_reverse_transform (Array2 m rs) info =
           Inr (Array1 (map (\<lambda>r. hd r * 2 * std_l ! argmax (tl r) + mean_l ! argmax (tl r)) rs)) \<and>
         (\<forall>r\<in>set rs. argmax (tl r) < length (tl r) \<and>
            (\<forall>j<length (tl r). tl r ! j \<le> tl r ! argmax (tl r)) \<and>
            (\<forall>j<argmax (tl r). tl r ! j < tl r ! argmax (tl r)))"
proof -
  have len: "length (tl r) = m - 1" if "r \<in> set rs" for r
    using assms(1) that by (auto simp: list_all_iff)
  have am: "argmax (tl r) < length (tl r) \<and>
            (\<forall>j<length (tl r). tl r ! j \<le> tl r ! argmax (tl r)) \<and>
            (\<forall>j<argmax (tl r). tl r ! j < tl r ! argmax (tl r))" if "r \<in> set rs" for r
  proof (rule argmax_spec)
    from len [OF that] assms(2) have "0 < length (tl r)" by arith
    then show "tl r \<noteq> []" by (simp only: length_greater_0_conv not_False_eq_True)
  qed
  have "\<not> list_ex (\<lambda>k. length mean_l \<le> k) (map argmax (map tl rs))"
    using am len assms(5) by (fastforce simp: list_ex_iff)
  moreover have "\<not> list_ex (\<lambda>k. length std_l \<le> k) (map argmax (map tl rs))"
    using am len assms(6) by (fastforce simp: list_ex_iff)
  moreover have "m \<noteq> 0" "m - 1 \<noteq> 0" using assms(2) by auto
  ultimately have "MultiModalNumberTransformer_reverse_transform (Array2 m rs) info =
      Inr (Array1 (map (\<lambda>(f, k). f * 2 * std_l ! k + mean_l ! k)
                    (zip (map hd rs) (map argmax (map tl rs)))))"
    using assms(3,4) by (simp add: Let_def)
  also have "map (\<lambda>(f, k). f * 2 * std_l ! k + mean_l ! k) (zip (map hd rs) (map argmax (map tl rs)))
             = map (\<lambda>r. hd r * 2 * std_l ! argmax (tl r) + mean_l ! argmax (tl r)) rs"
    by (simp add: map_zip_map2 comp_def)
  finally show ?thesis using am by blast
qed

theorem C6_reverse_transform_formula_witness:
  "wf_ndarray (Array2 3 [[1/2, 1/5, 4/5], [- 1/10, 9/10, 1/10]]) \<and> (2::nat) \<le> 3 \<and>
   MultiModalNumberTransformer_reverse_transform (Array2 3 [[1/2, 1/5, 4/5], [- 1/10, 9/10, 1/10]])
     \<lparr>type = ''value'', means = Some [10, 20], stds = Some [1, 2], mapping = None, n = 2\<rparr>
     = Inr (Array1 [22, 49/5])"
  using C6_reverse_transform_formula [of 3 "[[1/2, 1/5, 4/5], [- 1/10, 9/10, 1/10]]"
      "\<lparr>type = ''value'', means = Some [10, 20], stds = Some [1, 2], mapping = None, n = 2\<rparr>"
      "[10, 20]" "[1, 2]"]
  by simp

lemma clip_bounds: "lo \<le> hi \<Longrightarrow> lo \<le> clip x lo hi \<and> clip x lo hi \<le> hi"
  by (simp add: clip_def)

lemma clip_cases:
  "lo \<le> hi \<Longrightarrow>
     (hi < x \<longrightarrow> clip x lo hi = hi) \<and> (x < lo \<longrightarrow> clip x lo hi = lo) \<and>
     (lo \<le> x \<and> x \<le> hi \<longrightarrow> clip x lo hi = x)"
  by (auto simp: clip_def)

lemma concat_singletons_pair:
  "concat (map (\<lambda>(x, k). [g x k]) zs) = map (\<lambda>(x, k). g x k) zs"
  by (induction zs) auto

lemma transform_Inr_D:
  assumes "MultiModalNumberTransformer_transform ev self data = Inr (features, probs, mean_l, std_l)"
  shows "\<exists>ks. argmax_axis1 probs = Inr ks \<and> length ks = length (flat data) \<and>
           features = Array2 1 (map (\<lambda>(x, k). [clip ((x - mean_l ! k) / (2 * std_l ! k)) (- 0.99) 0.99])
                                 (zip (flat data) ks))"
  using assms
  by (auto simp: MultiModalNumberTransformer_transform_def check_inputs_def transform_body_def
      Let_def split: sum.splits if_splits)

text \<open>
  Claim C7. Every normalized scalar that \<^verbatim>\<open>MultiModalNumberTransformer.transform\<close> returns
  lies in the closed interval from \<open>-0.99\<close> to \<open>0.99\<close>: with \<open>k\<close> the component of maximum
  responsibility of the value \<open>x\<close>, a quotient \<open>(x - mean_k) / (2 * std_k)\<close> above \<open>0.99\<close> is
  returned as exactly \<open>0.99\<close>, one below \<open>-0.99\<close> as exactly \<open>-0.99\<close>, and one in between
  unchanged.
\<close>

theorem C7_scalar_clipped:
  assumes "MultiModalNumberTransformer_transform ev self data = Inr (features, probs, mean_l, std_l)"
  shows "\<exists>ks. argmax_axis1 probs = Inr ks \<and> length ks = length (flat data) \<and>
           length (flat features) = length (flat data) \<and>
           (\<forall>i<length (flat data).
              - 0.99 \<le> flat features ! i \<and> flat features ! i \<le> 0.99 \<and>
              (0.99 < (flat data ! i - mean_l ! (ks ! i)) / (2 * std_l ! (ks ! i))
                 \<longrightarrow> flat features ! i = 0.99) \<and>
              ((flat data ! i - mean_l ! (ks ! i)) / (2 * std_l ! (ks ! i)) < - 0.99
                 \<longrightarrow> flat features ! i = - 0.99) \<and>
              (- 0.99 \<le> (flat data ! i - mean_l ! (ks ! i)) / (2 * std_l ! (ks ! i)) \<and>
               (flat data ! i - mean_l ! (ks ! i)) / (2 * std_l ! (ks ! i)) \<le> 0.99
                 \<longrightarrow> flat features ! i = (flat data ! i - mean_l ! (ks ! i)) / (2 * std_l ! (ks ! i))))"
proof -
  from transform_Inr_D [OF assms] obtain ks where
    ks: "argmax_axis1 probs = Inr ks" "length ks = length (flat data)" and
    f: "features = Array2 1 (map (\<lambda>(x, k). [clip ((x - mean_l ! k) / (2 * std_l ! k)) (- 0.99) 0.99])
                                 (zip (flat data) ks))"
    by blast
  let ?s = "\<lambda>i. (flat data ! i - mean_l ! (ks ! i)) / (2 * std_l ! (ks ! i))"
  have "flat features = map (\<lambda>(x, k). clip ((x - mean_l ! k) / (2 * std_l ! k)) (- 0.99) 0.99)
                          (zip (flat data) ks)"
    unfolding f by (simp add: concat_singletons_pair)
  then have nth: "flat features ! i = clip (?s i) (- 0.99) 0.99" if "i < length (flat data)" for i
    using that ks(2) by simp
  have len: "length (flat features) = length (flat data)"
    using \<open>flat features = _\<close> ks(2) by simp
  have lohi: "(- 0.99 :: real) \<le> 0.99" by simp
  show ?thesis
    using ks len nth clip_bounds [OF lohi] clip_cases [OF lohi] by (intro exI [of _ ks]) auto
qed

theorem C7_scalar_clipped_witness:
  "MultiModalNumberTransformer_transform example_env \<lparr>num_modes = 2\<rparr>
       (Array2 1 [[1/2], [100], [- 7]])
     = Inr (Array2 1 [[1/4], [99/100], [- 99/100]],
            Array2 2 [[1, 0], [0, 1], [1, 0]], [0, 10], [1, 2]) \<and>
   (\<exists>ks. argmax_axis1 (Array2 2 [[1, 0], [0, 1], [1, 0]]) = Inr ks \<and> length ks = 3)"
proof -
  have h: "MultiModalNumberTransformer_transform example_env \<lparr>num_modes = 2\<rparr>
       (Array2 1 [[1/2], [100], [- 7]])
     = Inr (Array2 1 [[1/4], [99/100], [- 99/100]],
            Array2 2 [[1, 0], [0, 1], [1, 0]], [0, 10], [1, 2])"
    by (simp add: MultiModalNumberTransformer_transform_def check_inputs_def transform_body_def
        example_env_def example_gmm_def Let_def clip_def)
  from C7_scalar_clipped [OF h] h show ?thesis by auto
qed

section \<open>Properties of the Preprocessor\<close>

lemma CategoricalTransformer_transform_eq:
  "CategoricalTransformer_transform data =
     Inr (Array2 1 (map (\<lambda>x. [real (the (value_mapping_of (unique data) x))]) data),
          unique data, length (unique data))"
proof -
  let ?vm = "value_mapping_of (unique data)"
  have "traverse (subscript ?vm) data = Inr (map (\<lambda>x. the (?vm x)) data)"
  proof (rule traverse_all_Inr)
    fix x assume "x \<in> set data"
    then have "x \<in> set (unique data)" by (simp add: unique_set)
    from value_mapping_of_mem [OF unique_distinct this]
    show "subscript ?vm x = Inr (the (?vm x))" by (auto simp: subscript_def)
  qed
  then show ?thesis by (simp add: CategoricalTransformer_transform_def Let_def comp_def)
qed

lemma fit_transform_column_categorical:
  "i \<notin> set (continuous_columns self) \<Longrightarrow>
     fit_transform_column ev self data i =
       Inr (Array2 1 (map (\<lambda>x. [real (the (value_mapping_of (unique (astype_str ev (data ! i))) x))])
                        (astype_str ev (data ! i))),
            category_info (unique (astype_str ev (data ! i))))"
  by (simp add: fit_transform_column_def CategoricalTransformer_transform_eq category_info_def)

lemma fit_transform_loop_metadata_irrelevant:
  "fit_transform_loop ev (self\<lparr>metadata := m\<rparr>) data idxs st = fit_transform_loop ev self data idxs st"
proof (induction idxs arbitrary: st)
  case Nil
  then show ?case by simp
next
  case (Cons i idxs)
  have "fit_transform_column ev (self\<lparr>metadata := m\<rparr>) data i = fit_transform_column ev self data i"
    by (simp add: fit_transform_column_def cong: sum.case_cong)
  with Cons show ?case by (cases st) (simp split: sum.splits prod.splits)
qed


lemma fit_transform_loop_categorical:
  "continuous_columns self = [] \<Longrightarrow>
     \<exists>td. fit_transform_loop ev self data idxs (td0, dets0) =
       Inr (td, dets0 @ map (\<lambda>i. category_info (unique (astype_str ev (data ! i)))) idxs)"
proof (induction idxs arbitrary: td0 dets0)
  case Nil
  then show ?case by simp
next
  case (Cons i idxs)
  let ?info = "category_info (unique (astype_str ev (data ! i)))"
  from Cons.prems have "i \<notin> set (continuous_columns self)" by simp
  from fit_transform_column_categorical [OF this, of ev data]
  obtain block where col: "fit_transform_column ev self data i = Inr (block, ?info)" by blast
  from Cons.IH [OF Cons.prems, of "td0(fkey i \<mapsto> block)" "dets0 @ [?info]"]
  obtain td where "fit_transform_loop ev self data idxs (td0(fkey i \<mapsto> block), dets0 @ [?info]) =
       Inr (td, (dets0 @ [?info]) @ map (\<lambda>i. category_info (unique (astype_str ev (data ! i)))) idxs)"
    by blast
  with col show ?case by simp
qed

lemma map_nth_upt: "map (\<lambda>i. f (xs ! i)) [0..<length xs] = map f xs"
  by (rule nth_equalityI) simp_all

lemma of_char_digit_char: "d < 10 \<Longrightarrow> of_char (digit_char d) = (48 + d :: nat)"
proof -
  assume "d < 10"
  then have "d = 0 \<or> d = 1 \<or> d = 2 \<or> d = 3 \<or> d = 4 \<or> d = 5 \<or> d = 6 \<or> d = 7 \<or> d = 8 \<or> d = 9"
    by arith
  then show ?thesis by (auto simp: digit_char_def)
qed

lemma decode_str_of_nat:
  "foldl (\<lambda>a c. 10 * a + (of_char c - 48)) 0 (str_of_nat i) = (i :: nat)"
proof (induction i rule: str_of_nat.induct)
  case (1 i)
  show ?case
  proof (cases "i < 10")
    case True
    then show ?thesis by (subst str_of_nat.simps) (simp add: of_char_digit_char)
  next
    case False
    have "i mod 10 < 10" by simp
    with 1 False show ?thesis
      by (subst str_of_nat.simps) (simp add: of_char_digit_char)
  qed
qed

lemma decode_fkey: "foldl (\<lambda>a c. 10 * a + (of_char c - 48)) 0 (tl (fkey i)) = (i :: nat)"
proof -
  let ?f = "\<lambda>(a::nat) c. 10 * a + (of_char c - 48)"
  have tl: "tl (fkey i) = (if i < 10 then ''0'' else []) @ str_of_nat i"
    by (simp add: fkey_def)
  have "foldl ?f 0 (''0'' @ str_of_nat i) = foldl ?f 0 (str_of_nat i)"
    by (simp only: foldl_append) simp
  with tl show ?thesis by (cases "i < 10") (simp_all only: decode_str_of_nat if_True if_False append_Nil)
qed

lemma fkey_inj: "fkey i = fkey j \<Longrightarrow> i = j"
proof -
  assume "fkey i = fkey j"
  then have "foldl (\<lambda>a c. 10 * a + (of_char c - 48)) 0 (tl (fkey i)) =
             foldl (\<lambda>a c. 10 * a + (of_char c - 48)) (0::nat) (tl (fkey j))"
    by (rule arg_cong)
  then show "i = j" by (simp only: decode_fkey)
qed

lemma fit_transform_loop_blocks:
  "fit_transform_loop ev self data idxs (td0, dets0) = Inr (td, dets) \<Longrightarrow> distinct idxs \<Longrightarrow>
     (\<forall>i\<in>set idxs. \<exists>info. fit_transform_column ev self data i = Inr (the (td (fkey i)), info)
                      \<and> td (fkey i) \<noteq> None) \<and>
     (\<forall>j. j \<notin> set idxs \<longrightarrow> td (fkey j) = td0 (fkey j))"
proof (induction idxs arbitrary: td0 dets0)
  case Nil
  then show ?case by simp
next
  case (Cons i idxs)
  from Cons.prems(1) obtain block info where
    col: "fit_transform_column ev self data i = Inr (block, info)" and
    rest: "fit_transform_loop ev self data idxs (td0(fkey i \<mapsto> block), dets0 @ [info]) = Inr (td, dets)"
    by (auto split: sum.splits prod.splits)
  from Cons.prems(2) have d: "distinct idxs" "i \<notin> set idxs" by simp_all
  from Cons.IH [OF rest d(1)] have
    ih1: "\<forall>i\<in>set idxs. \<exists>info. fit_transform_column ev self data i = Inr (the (td (fkey i)), info)
                      \<and> td (fkey i) \<noteq> None" and
    ih2: "\<forall>j. j \<notin> set idxs \<longrightarrow> td (fkey j) = (td0(fkey i \<mapsto> block)) (fkey j)"
    by blast+
  from ih2 d(2) have "td (fkey i) = Some block" by simp
  with col ih1 have "\<forall>k\<in>set (i # idxs). \<exists>info. fit_transform_column ev self data k = Inr (the (td (fkey k)), info)
                      \<and> td (fkey k) \<noteq> None"
    by auto
  moreover have "\<forall>j. j \<notin> set (i # idxs) \<longrightarrow> td (fkey j) = td0 (fkey j)"
    using ih2 fkey_inj by auto
  ultimately show ?case by blast
qed

text \<open>
  Claim C10. A Preprocessor constructed with \<^verbatim>\<open>continuous_columns\<close> omitted (or \<^verbatim>\<open>None\<close>)
  treats every column of the table as categorical: \<^verbatim>\<open>fit_transform\<close> succeeds, the block
  and the descriptor of every column are the ones that \<^verbatim>\<open>CategoricalTransformer.transform\<close>
  returns for it, and every entry of \<^verbatim>\<open>metadata['details']\<close> has the type \<^verbatim>\<open>category\<close>.
\<close>

theorem C10_default_all_categorical:
  "\<exists>td dets.
     Preprocessor_fit_transform ev (Preprocessor_init None md) data True =
       (Inr td, (Preprocessor_init None md)
                  \<lparr>metadata := Some \<lparr>num_features = length data, details = dets\<rparr>\<rparr>) \<and>
     length dets = length data \<and>
     list_all (\<lambda>d. type d = ''category'') dets \<and>
     (\<forall>i<length data. \<exists>features mp k.
        CategoricalTransformer_transform (astype_str ev (data ! i)) = Inr (features, mp, k) \<and>
        td (fkey i) = Some features \<and>
        dets ! i = \<lparr>type = ''category'', means = None, stds = None, mapping = Some mp, n = k\<rparr>)"
proof -
  let ?self = "Preprocessor_init None md"
  let ?dets = "map (\<lambda>i. category_info (unique (astype_str ev (data ! i)))) [0..<length data]"
  have cc: "continuous_columns ?self = []"
    by (simp add: Preprocessor_init_def)
  from fit_transform_loop_categorical [OF cc, of ev data "[0..<length data]" Map.empty "[]"]
  obtain td where loop: "fit_transform_loop ev ?self data [0..<length data] (Map.empty, []) =
       Inr (td, ?dets)"
    by auto
  then have res: "Preprocessor_fit_transform ev ?self data True =
     (Inr td, ?self\<lparr>metadata := Some \<lparr>num_features = length data, details = ?dets\<rparr>\<rparr>)"
    by (simp add: Preprocessor_fit_transform_def Let_def)
  have len: "length ?dets = length data" by simp
  have cat: "list_all (\<lambda>d. type d = ''category'') ?dets"
    by (simp add: list_all_iff category_info_def)
  have cols: "\<exists>features mp k.
        CategoricalTransformer_transform (astype_str ev (data ! i)) = Inr (features, mp, k) \<and>
        td (fkey i) = Some features \<and>
        ?dets ! i = \<lparr>type = ''category'', means = None, stds = None, mapping = Some mp, n = k\<rparr>"
    if i: "i < length data" for i
  proof -
    from i have "i \<in> set [0..<length data]" by simp
    with fit_transform_loop_blocks [OF loop distinct_upt] obtain info where
      col: "fit_transform_column ev ?self data i = Inr (the (td (fkey i)), info)" and
      some: "td (fkey i) \<noteq> None"
      by blast
    have "i \<notin> set (continuous_columns ?self)" using cc by simp
    from fit_transform_column_categorical [OF this, of ev data] col
    have "the (td (fkey i)) =
            Array2 1 (map (\<lambda>x. [real (the (value_mapping_of (unique (astype_str ev (data ! i))) x))])
                        (astype_str ev (data ! i)))"
      by simp
    with some have "td (fkey i) =
            Some (Array2 1 (map (\<lambda>x. [real (the (value_mapping_of (unique (astype_str ev (data ! i))) x))])
                        (astype_str ev (data ! i))))"
      by auto
    moreover from i have "?dets ! i = category_info (unique (astype_str ev (data ! i)))"
      by simp
    ultimately show ?thesis
      by (simp add: CategoricalTransformer_transform_eq category_info_def)
  qed
  from res len cat cols show ?thesis by blast
qed

theorem C10_default_all_categorical_witness:
  "\<exists>td dets.
     Preprocessor_fit_transform example_env (Preprocessor_init None None)
         [Objects [''b'', ''a''], Floats [1]] True =
       (Inr td, (Preprocessor_init None None)
                  \<lparr>metadata := Some \<lparr>num_features = 2, details = dets\<rparr>\<rparr>) \<and>
     td ''f00'' = Some (Array2 1 [[1], [0]]) \<and>
     td ''f01'' = Some (Array2 1 [[0]]) \<and>
     dets = [category_info [''a'', ''b''], category_info [''x'']]"
proof -
  let ?data = "[Objects [''b'', ''a''], Floats [1]]"
  from C10_default_all_categorical [of example_env None ?data] obtain td dets where
    res: "Preprocessor_fit_transform example_env (Preprocessor_init None None) ?data True =
       (Inr td, (Preprocessor_init None None)
                  \<lparr>metadata := Some \<lparr>num_features = length ?data, details = dets\<rparr>\<rparr>)" and
    len: "length dets = length ?data" and
    cols: "\<forall>i<length ?data. \<exists>features mp k.
        CategoricalTransformer_transform (astype_str example_env (?data ! i)) = Inr (features, mp, k) \<and>
        td (fkey i) = Some features \<and>
        dets ! i = \<lparr>type = ''category'', means = None, stds = None, mapping = Some mp, n = k\<rparr>"
    by blast
  have k0: "fkey 0 = ''f00''" and k1: "fkey 1 = ''f01''"
    by (simp_all add: fkey_def str_of_nat.simps digit_char_def)
  have c0: "CategoricalTransformer_transform [''b'', ''a''] = Inr (Array2 1 [[1], [0]], [''a'', ''b''], 2)"
    by (simp add: CategoricalTransformer_transform_def unique_def value_mapping_of_def
        subscript_def enumerate_eq_zip)
  have c1: "CategoricalTransformer_transform [''x''] = Inr (Array2 1 [[0]], [''x''], 1)"
    by (simp add: CategoricalTransformer_transform_def unique_def value_mapping_of_def
        subscript_def enumerate_eq_zip)
  from cols [rule_format, of 0] c0 k0
  have 0: "td ''f00'' = Some (Array2 1 [[1], [0]])" "dets ! 0 = category_info [''a'', ''b'']"
    by (auto simp: category_info_def)
  from cols [rule_format, of 1] c1 k1
  have 1: "td ''f01'' = Some (Array2 1 [[0]])" "dets ! 1 = category_info [''x'']"
    by (auto simp: category_info_def example_env_def)
  from len 0(2) 1(2) have "dets = [category_info [''a'', ''b''], category_info [''x'']]"
    by (intro nth_equalityI) (auto simp: less_Suc_eq numeral_2_eq_2)
  with res 0(1) 1(1) show ?thesis by auto
qed


lemma fitted_ab_metadata:
  "metadata fitted_ab = Some \<lparr>num_features = 1, details = [category_info [''a'', ''b'']]\<rparr>"
  by (simp add: fitted_ab_def Preprocessor_fit_def Preprocessor_fit_transform_def Let_def
      fit_transform_column_def CategoricalTransformer_transform_eq Preprocessor_init_def
      category_info_def unique_def)

lemma fitted_ab_continuous_columns: "continuous_columns fitted_ab = []"
  by (simp add: fitted_ab_def Preprocessor_fit_def Preprocessor_fit_transform_def Let_def
      fit_transform_column_def CategoricalTransformer_transform_eq Preprocessor_init_def)

lemma fkey_0: "fkey 0 = ''f00''"
  by (simp add: fkey_def str_of_nat.simps digit_char_def)

lemma fkey_1: "fkey (Suc 0) = ''f01''"
  by (simp add: fkey_def str_of_nat.simps digit_char_def)

lemma Preprocessor_transform_eq:
  "Preprocessor_transform ev self data = (fst (Preprocessor_fit_transform ev self data True), self)"
  by (simp add: Preprocessor_transform_def Preprocessor_fit_transform_def Let_def
      split: sum.splits prod.splits)

lemma Preprocessor_transform_metadata_irrelevant:
  "fst (Preprocessor_transform ev (self\<lparr>metadata := m\<rparr>) data) = fst (Preprocessor_transform ev self data)"
  by (simp add: Preprocessor_transform_def Preprocessor_fit_transform_def Let_def
      fit_transform_loop_metadata_irrelevant split: sum.splits prod.splits)

lemma transform_b_example:
  "block_of (fst (Preprocessor_transform example_env fitted_ab [Objects [''b'']])) ''f00''
     = Inr (Array2 1 [[0]])"
  by (simp add: Preprocessor_transform_def Preprocessor_fit_transform_def Let_def
      fit_transform_column_def CategoricalTransformer_transform_eq fitted_ab_continuous_columns
      block_of_def subscript_def fkey_0 unique_def value_mapping_of_def enumerate_eq_zip)

lemma reverse_transform_column_missing:
  "data (fkey i) = None \<Longrightarrow> reverse_transform_column md data i column = Inl KeyError"
  by (simp add: reverse_transform_column_def)

lemma reverse_transform_loop_missing:
  "i \<in> set idxs \<Longrightarrow> data (fkey i) = None \<Longrightarrow> isl (reverse_transform_loop md data idxs st)"
proof (induction idxs arbitrary: st)
  case Nil
  then show ?case by simp
next
  case (Cons j idxs)
  obtain column table where st: "st = (column, table)" by (cases st)
  show ?case
  proof (cases "reverse_transform_column md data j column")
    case (Inl e)
    then show ?thesis by (simp add: st)
  next
    case (Inr c)
    with Cons.prems reverse_transform_column_missing [of data j md column]
    have "i \<in> set idxs" by auto
    from Cons.IH [OF this Cons.prems(2)] Inr show ?thesis by (simp add: st)
  qed
qed

lemma reverse_transform_column_agree:
  "data' (fkey i) = data (fkey i) \<Longrightarrow>
     reverse_transform_column md data' i column = reverse_transform_column md data i column"
  by (simp add: reverse_transform_column_def)

lemma reverse_transform_loop_agree:
  "\<forall>i\<in>set idxs. data' (fkey i) = data (fkey i) \<Longrightarrow>
     reverse_transform_loop md data' idxs st = reverse_transform_loop md data idxs st"
proof (induction idxs arbitrary: st)
  case Nil
  obtain column table where st: "st = (column, table)" by (cases st)
  then show ?case by simp
next
  case (Cons j idxs)
  obtain column table where st: "st = (column, table)" by (cases st)
  from Cons.prems have "data' (fkey j) = data (fkey j)" by simp
  then have col: "reverse_transform_column md data' j column = reverse_transform_column md data j column"
    by (rule reverse_transform_column_agree)
  from Cons.prems have "\<forall>i\<in>set idxs. data' (fkey i) = data (fkey i)" by simp
  then have rest: "reverse_transform_loop md data' idxs st' = reverse_transform_loop md data idxs st'" for st'
    by (rule Cons.IH)
  show ?case
  proof (cases "reverse_transform_column md data j column")
    case (Inl e)
    with col show ?thesis by (simp only: st reverse_transform_loop.simps sum.case)
  next
    case (Inr c)
    with col rest [of "(Some c, table @ [c])"] show ?thesis
      by (simp only: st reverse_transform_loop.simps sum.case)
  qed
qed

lemma reverse_transform_loop_prefix_error:
  "reverse_transform_loop md data xs st = Inl e \<Longrightarrow>
     reverse_transform_loop md data (xs @ ys) st = Inl e"
proof (induction xs arbitrary: st)
  case Nil
  obtain column table where st: "st = (column, table)" by (cases st)
  with Nil show ?case by simp
next
  case (Cons x xs)
  obtain column table where st: "st = (column, table)" by (cases st)
  show ?case
  proof (cases "reverse_transform_column md data x column")
    case (Inl e')
    with Cons.prems show ?thesis by (simp add: st)
  next
    case (Inr c)
    with Cons.prems have "reverse_transform_loop md data xs (Some c, table @ [c]) = Inl e"
      by (simp add: st)
    from Cons.IH [OF this] Inr show ?thesis by (simp add: st)
  qed
qed

lemma reverse_transform_loop_first_missing:
  "\<not> isl (reverse_transform_loop md data xs st) \<Longrightarrow> data (fkey i) = None \<Longrightarrow>
     reverse_transform_loop md data (xs @ i # ys) st = Inl KeyError"
proof (induction xs arbitrary: st)
  case Nil
  obtain column table where st: "st = (column, table)" by (cases st)
  from Nil.prems(2) show ?case
    by (simp add: st reverse_transform_column_missing)
next
  case (Cons x xs)
  obtain column table where st: "st = (column, table)" by (cases st)
  show ?case
  proof (cases "reverse_transform_column md data x column")
    case (Inl e')
    with Cons.prems(1) show ?thesis by (simp add: st)
  next
    case (Inr c)
    with Cons.prems(1) have "\<not> isl (reverse_transform_loop md data xs (Some c, table @ [c]))"
      by (simp add: st)
    from Cons.IH [OF this Cons.prems(2)] Inr show ?thesis by (simp add: st)
  qed
qed

lemma upt_split_at:
  assumes "i < k"
  shows "[0..<k] = [0..<i] @ i # [Suc i..<k]"
proof -
  from assms have "[0..<k] = [0..<i] @ [i..<k]"
    using upt_add_eq_append [of 0 i "k - i"] by simp
  also from assms have "[i..<k] = i # [Suc i..<k]"
    by (rule upt_conv_Cons)
  finally show ?thesis .
qed

lemma category_info_type: "type (category_info mp) = ''category''"
  by (simp add: category_info_def)

lemma category_reverse_example:
  "CategoricalTransformer_reverse_transform (Array2 (Suc 0) [[0]]) (category_info (x # xs)) = Inr [x]"
  by (simp add: CategoricalTransformer_reverse_transform_def check_inputs_def
      reverse_transform_body_def category_info_def id2str_def)

lemma reverse_extra_example:
  "Preprocessor_reverse_transform fitted_ab
      [''f00'' \<mapsto> Array2 1 [[0]], ''f01'' \<mapsto> Array2 1 [[1]]] = Inr [Objects [''a'']]"
  by (simp add: Preprocessor_reverse_transform_def fitted_ab_metadata fkey_0
      reverse_transform_column_def category_reverse_example category_info_type DataFrame_def)



text \<open>
  Claim C2, as amended. \<^verbatim>\<open>Preprocessor.transform\<close> is \<^verbatim>\<open>fit_transform\<close> with
  \<^verbatim>\<open>fitting=False\<close>: it returns what \<^verbatim>\<open>fit_transform\<close> returns on the new table, every
  column being fitted anew on the new data; its result does not depend on the stored
  metadata, and it leaves the object, with its metadata, unchanged.
\<close>

theorem C2_transform_refits:
  "Preprocessor_transform ev self data = (fst (Preprocessor_fit_transform ev self data True), self) \<and>
   fst (Preprocessor_transform ev (self\<lparr>metadata := m\<rparr>) data) = fst (Preprocessor_transform ev self data)"
  using Preprocessor_transform_eq Preprocessor_transform_metadata_irrelevant by blast

text \<open>
  Claim C2 as stated fails. A Preprocessor is fitted on the column \<open>a\<close>, \<open>b\<close>, so that its
  stored mapping puts \<open>b\<close> at index 1. \<^verbatim>\<open>transform\<close> of the column \<open>b\<close> builds a new
  vocabulary and encodes \<open>b\<close> as 0, where the stored mapping gives 1.
\<close>

theorem C2_stored_mapping_counterexample:
  "metadata fitted_ab = Some \<lparr>num_features = 1, details = [category_info [''a'', ''b'']]\<rparr> \<and>
   block_of (fst (Preprocessor_transform example_env fitted_ab [Objects [''b'']])) ''f00''
     = Inr (Array2 1 [[0]]) \<and>
   encode_with_stored_mapping [''a'', ''b''] [''b''] = Inr (Array2 1 [[1]]) \<and>
   block_of (fst (Preprocessor_transform example_env fitted_ab [Objects [''b'']])) ''f00''
     \<noteq> encode_with_stored_mapping [''a'', ''b''] [''b'']"
proof -
  have "encode_with_stored_mapping [''a'', ''b''] [''b''] = Inr (Array2 1 [[1]])"
    by (simp add: encode_with_stored_mapping_def value_mapping_of_def subscript_def enumerate_eq_zip)
  with fitted_ab_metadata transform_b_example show ?thesis by simp
qed

text \<open>
  Claim C8, as amended. On a Preprocessor without metadata, \<^verbatim>\<open>reverse_transform\<close> raises
  (a \<open>TypeError\<close>, from subscripting \<^verbatim>\<open>None\<close>) and produces no output. \<^verbatim>\<open>transform\<close> does
  not read the metadata: it returns what it returns on a fitted object, and leaves the
  object as it is.
\<close>

theorem C8_unfit:
  assumes "metadata self = None"
  shows "Preprocessor_reverse_transform self td = Inl TypeError \<and>
         snd (Preprocessor_transform ev self data) = self \<and>
         fst (Preprocessor_transform ev self data) =
           fst (Preprocessor_transform ev (self\<lparr>metadata := Some md\<rparr>) data)"
proof -
  from assms have "Preprocessor_reverse_transform self td = Inl TypeError"
    by (simp add: Preprocessor_reverse_transform_def)
  moreover have "snd (Preprocessor_transform ev self data) = self"
    by (simp add: Preprocessor_transform_eq)
  moreover have "fst (Preprocessor_transform ev self data) =
           fst (Preprocessor_transform ev (self\<lparr>metadata := Some md\<rparr>) data)"
    by (rule Preprocessor_transform_metadata_irrelevant [symmetric])
  ultimately show ?thesis by blast
qed

theorem C8_unfit_witness:
  "metadata (Preprocessor_init None None) = None \<and>
   Preprocessor_reverse_transform (Preprocessor_init None None) [''f00'' \<mapsto> Array2 1 [[0]]]
     = Inl TypeError \<and>
   snd (Preprocessor_transform example_env (Preprocessor_init None None) [Objects [''b'']])
     = Preprocessor_init None None"
proof -
  have h: "metadata (Preprocessor_init None None) = None"
    by (simp add: Preprocessor_init_def)
  from C8_unfit [OF h, of "[''f00'' \<mapsto> Array2 1 [[0]]]" example_env "[Objects [''b'']]"] h
  show ?thesis by simp
qed

text \<open>
  Claim C8 as stated fails for \<^verbatim>\<open>transform\<close>: on a Preprocessor that was never fitted and
  has no metadata, \<^verbatim>\<open>transform\<close> of a one-column table returns an encoded table.
\<close>

theorem C8_unfit_transform_counterexample:
  "metadata (Preprocessor_init None None) = None \<and>
   \<not> isl (fst (Preprocessor_transform example_env (Preprocessor_init None None) [Objects [''b'']])) \<and>
   block_of (fst (Preprocessor_transform example_env (Preprocessor_init None None) [Objects [''b'']]))
      ''f00'' = Inr (Array2 1 [[0]])"
  by (simp add: Preprocessor_transform_def Preprocessor_fit_transform_def Let_def
      fit_transform_column_def CategoricalTransformer_transform_eq Preprocessor_init_def
      block_of_def subscript_def fkey_0 unique_def value_mapping_of_def enumerate_eq_zip)

text \<open>
  Claim C3, as amended. With metadata present, \<^verbatim>\<open>reverse_transform\<close> reads exactly the
  blocks \<open>f00\<close>, \<open>f01\<close>, \<open>\<dots>\<close> below \<^verbatim>\<open>num_features\<close>, in this order. When one of them is
  missing from the transformed table it raises and returns no table: a \<open>KeyError\<close> when the
  columns before the missing block decode without error, and otherwise the error that an
  earlier column raises. Its result does not depend on any other key of the table.
  \<^verbatim>\<open>transform\<close> does not compare the table with the metadata: its result is the same
  whatever the metadata is.
\<close>

theorem C3_column_count:
  assumes "metadata self = Some md"
  shows "(\<forall>i<num_features md. td (fkey i) = None \<longrightarrow> isl (Preprocessor_reverse_transform self td)) \<and>
         (\<forall>i<num_features md.
            td (fkey i) = None \<and> \<not> isl (reverse_transform_loop md td [0..<i] (None, [])) \<longrightarrow>
            Preprocessor_reverse_transform self td = Inl KeyError) \<and>
         (\<forall>i<num_features md. \<forall>e.
            reverse_transform_loop md td [0..<i] (None, []) = Inl e \<longrightarrow>
            Preprocessor_reverse_transform self td = Inl e) \<and>
         ((\<forall>i<num_features md. td' (fkey i) = td (fkey i)) \<longrightarrow>
            Preprocessor_reverse_transform self td' = Preprocessor_reverse_transform self td) \<and>
         fst (Preprocessor_transform ev self data) =
           fst (Preprocessor_transform ev (self\<lparr>metadata := m\<rparr>) data)"
proof (intro conjI allI impI)
  fix i assume "i < num_features md" "td (fkey i) = None"
  then have "isl (reverse_transform_loop md td [0..<num_features md] (None, []))"
    by (intro reverse_transform_loop_missing [of i]) simp_all
  then show "isl (Preprocessor_reverse_transform self td)"
    using assms by (auto simp: Preprocessor_reverse_transform_def isl_def)
next
  fix i
  assume i: "i < num_features md"
    and h: "td (fkey i) = None \<and> \<not> isl (reverse_transform_loop md td [0..<i] (None, []))"
  from h have "reverse_transform_loop md td ([0..<i] @ i # [Suc i..<num_features md]) (None, [])
                 = Inl KeyError"
    by (intro reverse_transform_loop_first_missing) simp_all
  with upt_split_at [OF i]
  have "reverse_transform_loop md td [0..<num_features md] (None, []) = Inl KeyError"
    by simp
  then show "Preprocessor_reverse_transform self td = Inl KeyError"
    using assms by (simp add: Preprocessor_reverse_transform_def)
next
  fix i e
  assume i: "i < num_features md"
    and h: "reverse_transform_loop md td [0..<i] (None, []) = Inl e"
  from reverse_transform_loop_prefix_error [OF h, of "i # [Suc i..<num_features md]"]
    upt_split_at [OF i]
  have "reverse_transform_loop md td [0..<num_features md] (None, []) = Inl e"
    by simp
  then show "Preprocessor_reverse_transform self td = Inl e"
    using assms by (simp add: Preprocessor_reverse_transform_def)
next
  assume "\<forall>i<num_features md. td' (fkey i) = td (fkey i)"
  then have "reverse_transform_loop md td' [0..<num_features md] (None, []) =
             reverse_transform_loop md td [0..<num_features md] (None, [])"
    by (intro reverse_transform_loop_agree) simp
  then show "Preprocessor_reverse_transform self td' = Preprocessor_reverse_transform self td"
    using assms by (simp add: Preprocessor_reverse_transform_def)
next
  show "fst (Preprocessor_transform ev self data) =
           fst (Preprocessor_transform ev (self\<lparr>metadata := m\<rparr>) data)"
    by (simp add: Preprocessor_transform_metadata_irrelevant)
qed

theorem C3_column_count_witness:
  "metadata fitted_ab = Some \<lparr>num_features = 1, details = [category_info [''a'', ''b'']]\<rparr> \<and>
   isl (Preprocessor_reverse_transform fitted_ab [''f01'' \<mapsto> Array2 1 [[1]]]) \<and>
   Preprocessor_reverse_transform fitted_ab [''f01'' \<mapsto> Array2 1 [[1]]] = Inl KeyError \<and>
   Preprocessor_reverse_transform
      (fitted_ab\<lparr>metadata := Some \<lparr>num_features = 2, details = []\<rparr>\<rparr>)
      [''f00'' \<mapsto> Array2 1 [[0]]] = Inl IndexError \<and>
   Preprocessor_reverse_transform fitted_ab [''f00'' \<mapsto> Array2 1 [[0]], ''f01'' \<mapsto> Array2 1 [[1]]]
     = Preprocessor_reverse_transform fitted_ab [''f00'' \<mapsto> Array2 1 [[0]]]"
proof -
  note a = C3_column_count [OF fitted_ab_metadata,
      of "[''f01'' \<mapsto> Array2 1 [[1]]]" "[''f01'' \<mapsto> Array2 1 [[1]]]" example_env "[]" None]
  note b = C3_column_count [OF fitted_ab_metadata,
      of "[''f00'' \<mapsto> Array2 1 [[0]]]" "[''f00'' \<mapsto> Array2 1 [[0]], ''f01'' \<mapsto> Array2 1 [[1]]]"
         example_env "[]" None]
  have m: "metadata (fitted_ab\<lparr>metadata := Some \<lparr>num_features = 2, details = []\<rparr>\<rparr>)
             = Some \<lparr>num_features = 2, details = []\<rparr>"
    by simp
  note c = C3_column_count [OF m,
      of "[''f00'' \<mapsto> Array2 1 [[0]]]" "[''f00'' \<mapsto> Array2 1 [[0]]]" example_env "[]" None]
  from a have 1: "isl (Preprocessor_reverse_transform fitted_ab [''f01'' \<mapsto> Array2 1 [[1]]])"
    by (simp add: fkey_0)
  from a have 2: "Preprocessor_reverse_transform fitted_ab [''f01'' \<mapsto> Array2 1 [[1]]] = Inl KeyError"
    by (simp add: fkey_0)
  have "reverse_transform_loop \<lparr>num_features = 2, details = []\<rparr> [''f00'' \<mapsto> Array2 1 [[0]]]
          [0..<1] (None, []) = Inl IndexError"
    by (simp add: reverse_transform_column_def fkey_0)
  with c have 3: "Preprocessor_reverse_transform
      (fitted_ab\<lparr>metadata := Some \<lparr>num_features = 2, details = []\<rparr>\<rparr>)
      [''f00'' \<mapsto> Array2 1 [[0]]] = Inl IndexError"
    by (auto simp: less_Suc_eq numeral_2_eq_2)
  from b have 4: "Preprocessor_reverse_transform fitted_ab
       [''f00'' \<mapsto> Array2 1 [[0]], ''f01'' \<mapsto> Array2 1 [[1]]]
     = Preprocessor_reverse_transform fitted_ab [''f00'' \<mapsto> Array2 1 [[0]]]"
    by (simp add: fkey_0)
  from 1 2 3 4 show ?thesis using fitted_ab_metadata by simp
qed

text \<open>
  Claim C3 as stated fails. With metadata for one column, \<^verbatim>\<open>transform\<close> of a table of two
  columns returns an encoded table, and \<^verbatim>\<open>reverse_transform\<close> of a transformed table with
  two blocks returns a table of one column: the second block is dropped silently.
\<close>

theorem C3_column_count_counterexample:
  "metadata fitted_ab = Some \<lparr>num_features = 1, details = [category_info [''a'', ''b'']]\<rparr> \<and>
   length [Objects [''a''], Objects [''b'']] \<noteq> (1::nat) \<and>
   \<not> isl (fst (Preprocessor_transform example_env fitted_ab [Objects [''a''], Objects [''b'']])) \<and>
   Preprocessor_reverse_transform fitted_ab
      [''f00'' \<mapsto> Array2 1 [[0]], ''f01'' \<mapsto> Array2 1 [[1]]] = Inr [Objects [''a'']]"
proof -
  have "\<not> isl (fst (Preprocessor_transform example_env fitted_ab [Objects [''a''], Objects [''b'']]))"
    by (simp add: Preprocessor_transform_def Preprocessor_fit_transform_def Let_def
      fit_transform_column_def CategoricalTransformer_transform_eq fitted_ab_continuous_columns
      upt_rec)
  with fitted_ab_metadata reverse_extra_example show ?thesis by simp
qed

text \<open>
  Claim C4 at an input where the code departs from it. The metadata has two descriptors,
  the second of a type that is neither \<^verbatim>\<open>value\<close> nor \<^verbatim>\<open>category\<close>. \<^verbatim>\<open>check_metadata\<close>, which
  \<^verbatim>\<open>npz_to_csv\<close> calls before the same loop, rejects it; \<^verbatim>\<open>Preprocessor.reverse_transform\<close>
  does not call it, raises nothing, and returns for the second column the values of the
  first, which the local \<^verbatim>\<open>column\<close> still holds.
\<close>

theorem C4_unsupported_type_output:
  "check_metadata unsupported_metadata = Inl AssertionError \<and>
   Preprocessor_reverse_transform
      \<lparr>continuous_columns = [], metadata = Some unsupported_metadata,
       continous_transformer = \<lparr>num_modes = 5\<rparr>\<rparr>
      [''f00'' \<mapsto> Array2 1 [[0]], ''f01'' \<mapsto> Array2 1 [[0]]]
     = Inr [Objects [''a''], Objects [''a'']]"
  by (simp add: check_metadata_def unsupported_metadata_def Preprocessor_reverse_transform_def
      upt_rec fkey_0 fkey_1 reverse_transform_column_def category_reverse_example
      category_info_type DataFrame_def)

end
